theory Spec2Isabelle
  imports Main
begin

section \<open>Shared vocabulary\<close>

text \<open>
  Hash digests (\<open>CaseHash\<close>, \<open>JobHash\<close>, \<open>CodemodHash\<close>, explorer node digests) are branded
  strings in the sources; paths are strings.
\<close>

type_synonym CaseHash = string
type_synonym JobHash = string
type_synonym CodemodHash = string
type_synonym ExplorerNodeHashDigest = string

section \<open>The store state (\<open>persistedStateCodecNew\<close>) and the actions the sources dispatch\<close>

text \<open>
  \<open>RootState\<close> is the type of \<open>persistedStateCodecNew\<close>; the fields below are the ones the
  modelled handlers read or write. A \<open>t.record(k, v)\<close> is a finite
  dictionary, modelled as a map.
\<close>

record CodemodDiscoveryView =
  executionPaths :: "CodemodHash \<rightharpoonup> string"

record CodemodRunsTab =
  selectedCaseHash :: "CaseHash option"

record RootState =
  codemodDiscoveryView :: CodemodDiscoveryView
  codemodRunsTab :: CodemodRunsTab
  applySelectedInProgress :: bool
  selectedExplorerNodes :: "CaseHash \<rightharpoonup> ExplorerNodeHashDigest list"
  indeterminateExplorerNodes :: "CaseHash \<rightharpoonup> ExplorerNodeHashDigest list"

text \<open>
  The actions of \<open>data/slice\<close> that the modelled handlers dispatch. The slice itself (the
  reducers) is not among the sources: every handler below takes the reducer as the
  parameter \<open>red\<close> and \<open>store.dispatch(a)\<close> replaces the state \<open>s\<close> by \<open>red s a\<close>.
\<close>

datatype action =
    SetExecutionPath CodemodHash string
  | SetApplySelectedInProgress bool
  | ClearSelectedExplorerNodes CaseHash
  | ClearIndeterminateExplorerNodes CaseHash

type_synonym reducer = "RootState \<Rightarrow> action \<Rightarrow> RootState"

text \<open>
  What a handler does besides changing the store, in program order: messages shown by
  \<open>vscode.window\<close>, the actions dispatched, calls into the job manager, commands executed
  and telemetry.
\<close>

datatype effect =
    ShowWarningMessage string
  | ShowErrorMessage string
  | ShowInformationMessage string
  | Dispatched action
  | AcceptJobs "JobHash set"
  | DeleteJobs "JobHash list"
  | ExecuteCommand string
  | SendError string

section \<open>\<open>MainViewProvider.updateExecutionPath\<close>\<close>

record UpdateExecutionPathArgs =
  newPath :: string
  codemodHash :: CodemodHash
  errorMessage :: "string option"
  warningMessage :: "string option"
  revertToPrevExecutionIfInvalid :: bool
  fromVSCodeCommand :: "bool option"

text \<open>
  \<open>rootUri\<close> is \<open>this.__rootUri\<close>; \<open>stat p\<close> tells whether
  \<open>workspace.fs.stat(Uri.file(p))\<close> resolves (\<open>False\<close>: it throws and the \<open>catch\<close> block
  runs). The optional \<open>fromVSCodeCommand\<close> is falsy when absent. The two branches on
  \<open>revertToPrevExecutionIfInvalid\<close> are kept as the source writes them.
\<close>

definition failureMessages :: "UpdateExecutionPathArgs \<Rightarrow> effect list" where
  "failureMessages a =
     (case errorMessage a of None \<Rightarrow> [] | Some m \<Rightarrow> [ShowErrorMessage m]) @
     (case warningMessage a of None \<Rightarrow> [] | Some m \<Rightarrow> [ShowWarningMessage m])"

definition updateExecutionPath ::
  "reducer \<Rightarrow> (string \<Rightarrow> bool) \<Rightarrow> string option \<Rightarrow> UpdateExecutionPathArgs \<Rightarrow>
   RootState \<Rightarrow> RootState \<times> effect list" where
  "updateExecutionPath red stat rootUri a s =
     (case rootUri of
        None \<Rightarrow> (s, [ShowWarningMessage ''No active workspace is found.''])
      | Some _ \<Rightarrow>
          (let oldExecutionPath = executionPaths (codemodDiscoveryView s) (codemodHash a) in
           if stat (newPath a) then
             (red s (SetExecutionPath (codemodHash a) (newPath a)),
              [Dispatched (SetExecutionPath (codemodHash a) (newPath a))] @
              (if Some (newPath a) \<noteq> oldExecutionPath \<and> fromVSCodeCommand a \<noteq> Some True
               then [ShowInformationMessage ''Successfully updated the execution path.'']
               else []))
           else
             (case oldExecutionPath of
                None \<Rightarrow> (s, failureMessages a)
              | Some old \<Rightarrow>
                  if revertToPrevExecutionIfInvalid a then
                    (red s (SetExecutionPath (codemodHash a) old),
                     failureMessages a @ [Dispatched (SetExecutionPath (codemodHash a) old)])
                  else
                    (red s (SetExecutionPath (codemodHash a) old),
                     failureMessages a @ [Dispatched (SetExecutionPath (codemodHash a) old)]))))"

text \<open>The actions a handler dispatched, in order.\<close>

fun dispatched :: "effect list \<Rightarrow> action list" where
  "dispatched [] = []"
| "dispatched (Dispatched a # es) = a # dispatched es"
| "dispatched (_ # es) = dispatched es"

text \<open>
  Modelled from the spec: the reducers of \<open>data/slice\<close> are not among the sources. In this
  reducer each action writes the field of \<open>RootState\<close> its name says (an execution path per
  codemod, the apply-in-progress flag, the selected and the indeterminate explorer nodes of
  a case). It is used to run the handlers on concrete inputs.
\<close>

fun sliceReducer :: reducer where
  "sliceReducer s (SetExecutionPath h p) =
     s\<lparr>codemodDiscoveryView :=
         (codemodDiscoveryView s)\<lparr>executionPaths := (executionPaths (codemodDiscoveryView s))(h \<mapsto> p)\<rparr>\<rparr>"
| "sliceReducer s (SetApplySelectedInProgress b) = s\<lparr>applySelectedInProgress := b\<rparr>"
| "sliceReducer s (ClearSelectedExplorerNodes c) =
     s\<lparr>selectedExplorerNodes := (selectedExplorerNodes s)(c \<mapsto> [])\<rparr>"
| "sliceReducer s (ClearIndeterminateExplorerNodes c) =
     s\<lparr>indeterminateExplorerNodes := (indeterminateExplorerNodes s)(c \<mapsto> [])\<rparr>"

definition initialState :: RootState where
  "initialState =
     \<lparr>codemodDiscoveryView = \<lparr>executionPaths = Map.empty\<rparr>,
      codemodRunsTab = \<lparr>selectedCaseHash = None\<rparr>,
      applySelectedInProgress = False,
      selectedExplorerNodes = Map.empty,
      indeterminateExplorerNodes = Map.empty\<rparr>"

section \<open>The apply and discard commands (\<open>extension.ts\<close>)\<close>

text \<open>
  \<open>selectExplorerTree\<close> is not among the sources; the handlers use one field of its
  result, \<open>selectedJobHashes\<close>, so the tree is modelled by that field and the selector is
  the parameter \<open>selectTree\<close> (\<open>None\<close> is the source's \<open>null\<close>).
\<close>

record ExplorerTree =
  selectedJobHashes :: "JobHash list"

text \<open>
  The job manager is not among the sources either. \<open>acceptJobs\<close> and \<open>deleteJobs\<close> are
  parameters that act on the store and on everything outside it (type \<open>'x\<close>: job and case
  stores, the file system) and may throw: the first component of their result is the
  message of the thrown error, if any. \<open>decodeCaseHash\<close> is \<open>caseHashCodec.decode\<close> followed
  by the reporter: \<open>Inl\<close> carries the report of a failed validation.
\<close>

type_synonym 'x world = "RootState \<times> 'x"
type_synonym 'x jobOp = "'x world \<Rightarrow> string option \<times> 'x world"

text \<open>
  The \<open>try\<close> block of \<open>intuita.sourceControl.saveStagedJobsToTheFileSystem\<close>, after the
  first dispatch: the error thrown (if any), the effects in order and the world.
\<close>

definition saveStagedJobsBody ::
  "reducer \<Rightarrow> ('r \<Rightarrow> string + CaseHash) \<Rightarrow> (RootState \<Rightarrow> string \<Rightarrow> ExplorerTree option) \<Rightarrow>
   (JobHash set \<Rightarrow> 'x jobOp) \<Rightarrow> string \<Rightarrow> 'r \<Rightarrow> 'x world \<Rightarrow>
   string option \<times> effect list \<times> 'x world" where
  "saveStagedJobsBody red decodeCaseHash selectTree acceptJobs rootPath arg0 w =
     (case decodeCaseHash arg0 of
        Inl report \<Rightarrow> (Some report, [], w)
      | Inr caseHashDigest \<Rightarrow>
          (let state = fst w in
           if Some caseHashDigest \<noteq> selectedCaseHash (codemodRunsTab state) then (None, [], w)
           else
             (case selectTree state rootPath of
                None \<Rightarrow>
                  (None, [Dispatched (SetApplySelectedInProgress False)],
                   (red state (SetApplySelectedInProgress False), snd w))
              | Some tree \<Rightarrow>
                  (case acceptJobs (set (selectedJobHashes tree)) w of
                     (Some e, w') \<Rightarrow> (Some e, [AcceptJobs (set (selectedJobHashes tree))], w')
                   | (None, w') \<Rightarrow>
                       (None,
                        [AcceptJobs (set (selectedJobHashes tree)),
                         Dispatched (ClearSelectedExplorerNodes caseHashDigest),
                         Dispatched (ClearIndeterminateExplorerNodes caseHashDigest),
                         ExecuteCommand ''workbench.view.scm''],
                        (red (red (fst w') (ClearSelectedExplorerNodes caseHashDigest))
                           (ClearIndeterminateExplorerNodes caseHashDigest), snd w'))))))"

text \<open>
  The whole command: the first dispatch, the \<open>try\<close> block, the \<open>catch\<close> block (telemetry,
  then the error message) and the \<open>finally\<close> block.
\<close>

definition saveStagedJobsToTheFileSystem ::
  "reducer \<Rightarrow> ('r \<Rightarrow> string + CaseHash) \<Rightarrow> (RootState \<Rightarrow> string \<Rightarrow> ExplorerTree option) \<Rightarrow>
   (JobHash set \<Rightarrow> 'x jobOp) \<Rightarrow> string \<Rightarrow> 'r \<Rightarrow> 'x world \<Rightarrow> effect list \<times> 'x world" where
  "saveStagedJobsToTheFileSystem red decodeCaseHash selectTree acceptJobs rootPath arg0 w =
     (case saveStagedJobsBody red decodeCaseHash selectTree acceptJobs rootPath arg0
             (red (fst w) (SetApplySelectedInProgress True), snd w) of
        (thrown, effs, w') \<Rightarrow>
          ([Dispatched (SetApplySelectedInProgress True)] @ effs @
           (case thrown of
              None \<Rightarrow> []
            | Some message \<Rightarrow>
                [SendError ''intuita.sourceControl.saveStagedJobsToTheFileSystem'',
                 ShowErrorMessage message]) @
           [Dispatched (SetApplySelectedInProgress False)],
           (red (fst w') (SetApplySelectedInProgress False), snd w')))"

text \<open>\<open>intuita.discardJobs\<close>: no first dispatch and no \<open>finally\<close>; the \<open>catch\<close> block shows the
  message before it sends the telemetry.\<close>

definition discardJobsBody ::
  "reducer \<Rightarrow> ('r \<Rightarrow> string + CaseHash) \<Rightarrow> (RootState \<Rightarrow> string \<Rightarrow> ExplorerTree option) \<Rightarrow>
   (JobHash list \<Rightarrow> 'x jobOp) \<Rightarrow> string \<Rightarrow> 'r \<Rightarrow> 'x world \<Rightarrow>
   string option \<times> effect list \<times> 'x world" where
  "discardJobsBody red decodeCaseHash selectTree deleteJobs rootPath arg0 w =
     (case decodeCaseHash arg0 of
        Inl report \<Rightarrow> (Some report, [], w)
      | Inr caseHashDigest \<Rightarrow>
          (let state = fst w in
           if Some caseHashDigest \<noteq> selectedCaseHash (codemodRunsTab state) then (None, [], w)
           else
             (case selectTree state rootPath of
                None \<Rightarrow> (None, [], w)
              | Some tree \<Rightarrow>
                  (case deleteJobs (selectedJobHashes tree) w of
                     (Some e, w') \<Rightarrow> (Some e, [DeleteJobs (selectedJobHashes tree)], w')
                   | (None, w') \<Rightarrow>
                       (None,
                        [DeleteJobs (selectedJobHashes tree),
                         Dispatched (ClearSelectedExplorerNodes caseHashDigest),
                         Dispatched (ClearIndeterminateExplorerNodes caseHashDigest)],
                        (red (red (fst w') (ClearSelectedExplorerNodes caseHashDigest))
                           (ClearIndeterminateExplorerNodes caseHashDigest), snd w'))))))"

definition discardJobs ::
  "reducer \<Rightarrow> ('r \<Rightarrow> string + CaseHash) \<Rightarrow> (RootState \<Rightarrow> string \<Rightarrow> ExplorerTree option) \<Rightarrow>
   (JobHash list \<Rightarrow> 'x jobOp) \<Rightarrow> string \<Rightarrow> 'r \<Rightarrow> 'x world \<Rightarrow> effect list \<times> 'x world" where
  "discardJobs red decodeCaseHash selectTree deleteJobs rootPath arg0 w =
     (case discardJobsBody red decodeCaseHash selectTree deleteJobs rootPath arg0 w of
        (thrown, effs, w') \<Rightarrow>
          (effs @
           (case thrown of
              None \<Rightarrow> []
            | Some message \<Rightarrow> [ShowErrorMessage message, SendError ''intuita.discardJobs'']),
           w'))"

text \<open>The calls into the job manager that a handler made, in order.\<close>

fun acceptCalls :: "effect list \<Rightarrow> JobHash set list" where
  "acceptCalls [] = []"
| "acceptCalls (AcceptJobs H # es) = H # acceptCalls es"
| "acceptCalls (_ # es) = acceptCalls es"


text \<open>Stand-ins for the parameters, to run the handlers on concrete inputs: a decoder that
  accepts every non-empty string, and job operations that succeed or throw without touching
  the world.\<close>

definition decodeNonEmpty :: "string \<Rightarrow> string + CaseHash" where
  "decodeNonEmpty a = (if a = [] then Inl ''Invalid value'' else Inr a)"

definition jobOpOk :: "'h \<Rightarrow> 'x jobOp" where
  "jobOpOk hs w = (None, w)"

definition jobOpThrows :: "'h \<Rightarrow> 'x jobOp" where
  "jobOpThrows hs w = (Some ''EIO'', w)"

definition stateWithCase :: "CaseHash \<Rightarrow> RootState" where
  "stateWithCase c =
     initialState\<lparr>codemodRunsTab := \<lparr>selectedCaseHash = Some c\<rparr>,
                  selectedExplorerNodes := [c \<mapsto> [''n1'', ''n2'']],
                  indeterminateExplorerNodes := [c \<mapsto> [''n0'']]\<rparr>"

section \<open>Jobs, cases and the case tree (\<open>CampaignManagerProvider\<close>)\<close>

datatype JobKind = rewriteFile | createFile | deleteFile | moveFile | moveAndRewriteFile | copyFile

text \<open>
  A \<open>vscode.Uri\<close> is an object. \<open>uriRef\<close> is the identity of the object, \<open>uriString\<close> what
  \<open>toString()\<close> returns and \<open>fsPath\<close> its path. Two objects with different identities can
  hold the same URI; a JavaScript \<open>Set\<close> tells objects apart by identity.
\<close>

record Uri =
  uriRef :: nat
  uriString :: string
  fsPath :: string

record Job =
  jobHash :: JobHash
  kind :: JobKind
  oldUri :: "Uri option"
  newUri :: "Uri option"
  createdAt :: int

record CaseWithJobHashes =
  caseHash :: CaseHash
  codemodName :: string
  caseCreatedAt :: int
  jobHashes :: "JobHash list"

text \<open>
  The element builders (\<open>buildJobElement\<close>, \<open>buildFileElement\<close>, \<open>buildCaseElement\<close>) and
  the three comparators are not among the sources. A file element is modelled by the
  arguments \<open>buildFileElement\<close> receives and a case element by those of
  \<open>buildCaseElement\<close>; \<open>buildJobElement\<close> and the comparators are parameters.
\<close>

record 'je FileElement =
  fileCaseHash :: CaseHash
  fileLabel :: string
  fileChildren :: "'je list"

record 'je CaseElement =
  elementCase :: CaseWithJobHashes
  caseChildren :: "'je FileElement list"

text \<open>\<open>String.prototype.replace(pattern, '')\<close> with a string pattern: the first occurrence
  of the pattern is removed.\<close>

fun removeFirst :: "string \<Rightarrow> string \<Rightarrow> string" where
  "removeFirst pat [] = []"
| "removeFirst pat (c # cs) =
     (if take (length pat) (c # cs) = pat then drop (length pat) (c # cs)
      else c # removeFirst pat cs)"

text \<open>The inner loop over \<open>caseWithJobHashes.jobHashes\<close>: the jobs found in the job map, in
  order, and the latest job seen so far.\<close>

fun collectJobs :: "(JobHash \<rightharpoonup> Job) \<Rightarrow> JobHash list \<Rightarrow> Job option \<Rightarrow> Job list \<times> Job option" where
  "collectJobs jobMap [] latestJob = ([], latestJob)"
| "collectJobs jobMap (h # hs) latestJob =
     (case jobMap h of
        None \<Rightarrow> collectJobs jobMap hs latestJob
      | Some job \<Rightarrow>
          (let latestJob' =
                 (case latestJob of
                    None \<Rightarrow> Some job
                  | Some l \<Rightarrow> if createdAt l < createdAt job then Some job else Some l);
               r = collectJobs jobMap hs latestJob'
           in (job # fst r, snd r)))"

text \<open>\<open>Set.prototype.add\<close> on a set of objects, kept in insertion order: an object already in
  the set (the same identity) is not added again.\<close>

definition uriSetAdd :: "Uri list \<Rightarrow> Uri \<Rightarrow> Uri list" where
  "uriSetAdd uriSet u = (if uriRef u \<in> uriRef ` set uriSet then uriSet else uriSet @ [u])"

definition addTargetUris :: "Uri list \<Rightarrow> Job \<Rightarrow> Uri list" where
  "addTargetUris uriSet job =
     (let s1 = (if kind job \<in> {createFile, moveFile, moveAndRewriteFile, copyFile}
                then (case newUri job of None \<Rightarrow> uriSet | Some u \<Rightarrow> uriSetAdd uriSet u)
                else uriSet)
      in if kind job \<in> {rewriteFile, deleteFile}
         then (case oldUri job of None \<Rightarrow> s1 | Some u \<Rightarrow> uriSetAdd s1 u)
         else s1)"

definition targetUris :: "Job list \<Rightarrow> Uri list" where
  "targetUris jobs = foldl addTargetUris [] jobs"

definition jobTouches :: "Uri \<Rightarrow> Job \<Rightarrow> bool" where
  "jobTouches uri job \<longleftrightarrow>
     map_option uriString (newUri job) = Some (uriString uri) \<or>
     map_option uriString (oldUri job) = Some (uriString uri)"

text \<open>The target URI of a job in the words of the spec: the new URI of a created, moved or
  copied file, the old URI of a rewritten or deleted one.\<close>

definition targetOf :: "Job \<Rightarrow> Uri option" where
  "targetOf job =
     (if kind job \<in> {createFile, moveFile, moveAndRewriteFile, copyFile} then newUri job
      else oldUri job)"

definition fileElementFor ::
  "(Job \<Rightarrow> string \<Rightarrow> 'je) \<Rightarrow> string \<Rightarrow> CaseHash \<Rightarrow> Job list \<Rightarrow> Uri \<Rightarrow> 'je FileElement" where
  "fileElementFor buildJobElement rootPath c jobs uri =
     \<lparr>fileCaseHash = c,
      fileLabel = removeFirst rootPath (fsPath uri),
      fileChildren = map (\<lambda>job. buildJobElement job rootPath) (filter (jobTouches uri) jobs)\<rparr>"

text \<open>\<open>Array.prototype.sort\<close> with a comparator, as a stable insertion sort: elements are
  inserted from the right, and an element moves past those the comparator puts it
  strictly after.\<close>

fun insertBy :: "('a \<Rightarrow> 'a \<Rightarrow> int) \<Rightarrow> 'a \<Rightarrow> 'a list \<Rightarrow> 'a list" where
  "insertBy cmp x [] = [x]"
| "insertBy cmp x (y # ys) = (if 0 < cmp x y then y # insertBy cmp x ys else x # y # ys)"

definition sortBy :: "('a \<Rightarrow> 'a \<Rightarrow> int) \<Rightarrow> 'a list \<Rightarrow> 'a list" where
  "sortBy cmp xs = foldr (insertBy cmp) xs []"

text \<open>The outer loop: one unsorted case element per case, threading \<open>latestJob\<close>.\<close>

fun buildUnsorted ::
  "(Job \<Rightarrow> string \<Rightarrow> 'je) \<Rightarrow> string \<Rightarrow> (JobHash \<rightharpoonup> Job) \<Rightarrow> CaseWithJobHashes list \<Rightarrow>
   Job option \<Rightarrow> 'je CaseElement list \<times> Job option" where
  "buildUnsorted buildJobElement rootPath jobMap [] latestJob = ([], latestJob)"
| "buildUnsorted buildJobElement rootPath jobMap (k # ks) latestJob =
     (let jl = collectJobs jobMap (jobHashes k) latestJob;
          jobs = fst jl;
          uris = targetUris jobs;
          children = map (fileElementFor buildJobElement rootPath (caseHash k) jobs) uris;
          r = buildUnsorted buildJobElement rootPath jobMap ks (snd jl)
      in (\<lparr>elementCase = k, caseChildren = children\<rparr> # fst r, snd r))"

definition buildCaseElementsAndLatestJob ::
  "(Job \<Rightarrow> string \<Rightarrow> 'je) \<Rightarrow> ('je CaseElement \<Rightarrow> 'je CaseElement \<Rightarrow> int) \<Rightarrow>
   ('je FileElement \<Rightarrow> 'je FileElement \<Rightarrow> int) \<Rightarrow> ('je \<Rightarrow> 'je \<Rightarrow> int) \<Rightarrow>
   string \<Rightarrow> CaseWithJobHashes list \<Rightarrow> (JobHash \<rightharpoonup> Job) \<Rightarrow> 'je CaseElement list \<times> Job option" where
  "buildCaseElementsAndLatestJob buildJobElement compareCaseElements compareFileElements
     compareJobElements rootPath casesWithJobHashes jobMap =
     (let r = buildUnsorted buildJobElement rootPath jobMap casesWithJobHashes None
      in (map (\<lambda>caseElement.
                 caseElement\<lparr>caseChildren :=
                   map (\<lambda>fileElement.
                          fileElement\<lparr>fileChildren := sortBy compareJobElements (fileChildren fileElement)\<rparr>)
                       (sortBy compareFileElements (caseChildren caseElement))\<rparr>)
              (sortBy compareCaseElements (fst r)),
          snd r))"

text \<open>\<open>CampaignManagerProvider\<close>. The provider's view is \<open>None\<close> until the webview is
  resolved, and otherwise holds the messages posted to it so far (\<open>setView\<close> and
  \<open>__selectCase\<close> post through \<open>__postMessage\<close>, which posts nothing without a view). A tree
  node is modelled by the fields \<open>__buildCaseTree\<close> fills from the element.\<close>

record CaseTreeNode =
  nodeId :: CaseHash
  nodeLabel :: string
  caseApplied :: bool

datatype CampaignMessage =
    SetViewMessage "CaseTreeNode list option"
  | SelectCaseMessage CaseTreeNode

record CampaignManagerProvider =
  campaignView :: "CampaignMessage list option"
  treeMap :: "CaseHash \<rightharpoonup> CaseTreeNode"

definition campaignPostMessage :: "CampaignMessage \<Rightarrow> CampaignManagerProvider \<Rightarrow> CampaignManagerProvider" where
  "campaignPostMessage m p =
     (case campaignView p of None \<Rightarrow> p | Some inbox \<Rightarrow> p\<lparr>campaignView := Some (inbox @ [m])\<rparr>)"

definition selectCase :: "CaseHash \<Rightarrow> CampaignManagerProvider \<Rightarrow> CampaignManagerProvider" where
  "selectCase h p =
     (case treeMap p h of
        None \<Rightarrow> p
      | Some node \<Rightarrow> campaignPostMessage (SelectCaseMessage node) p)"

text \<open>\<open>__buildJobMap\<close>: the jobs the job manager knows for the job hashes of all cases,
  stored under the hash the job itself carries. \<open>getJob\<close> is \<open>jobManager.getJob\<close>.\<close>

fun addJobs :: "(JobHash \<rightharpoonup> Job) \<Rightarrow> JobHash list \<Rightarrow> (JobHash \<rightharpoonup> Job) \<Rightarrow> (JobHash \<rightharpoonup> Job)" where
  "addJobs getJob [] m = m"
| "addJobs getJob (h # hs) m =
     (case getJob h of
        None \<Rightarrow> addJobs getJob hs m
      | Some job \<Rightarrow> addJobs getJob hs (m(jobHash job \<mapsto> job)))"

definition buildJobMap :: "(JobHash \<rightharpoonup> Job) \<Rightarrow> CaseWithJobHashes list \<Rightarrow> (JobHash \<rightharpoonup> Job)" where
  "buildJobMap getJob cases = addJobs getJob (concat (map jobHashes cases)) Map.empty"

text \<open>
  The functions of the repository that the provider calls and that are not among the
  sources, as one record of parameters: the job element builder, the three comparators,
  and the \<open>hash\<close> and \<open>label\<close> that \<open>buildCaseElement\<close> gives a case element.
\<close>

record 'je ElementBuilders =
  jobElementOf :: "Job \<Rightarrow> string \<Rightarrow> 'je"
  caseElementOrder :: "'je CaseElement \<Rightarrow> 'je CaseElement \<Rightarrow> int"
  fileElementOrder :: "'je FileElement \<Rightarrow> 'je FileElement \<Rightarrow> int"
  jobElementOrder :: "'je \<Rightarrow> 'je \<Rightarrow> int"
  caseElementHash :: "'je CaseElement \<Rightarrow> CaseHash"
  caseElementLabel :: "'je CaseElement \<Rightarrow> string"

text \<open>\<open>__buildCaseTree\<close>: the node of a case element, stored in the tree map under the
  element's hash. This is the only place that writes the tree map; nothing removes an
  entry.\<close>

definition buildCaseTree ::
  "'je ElementBuilders \<Rightarrow> 'je CaseElement \<Rightarrow> CampaignManagerProvider \<Rightarrow>
   CaseTreeNode \<times> CampaignManagerProvider" where
  "buildCaseTree B element p =
     (let mappedNode = \<lparr>nodeId = caseElementHash B element, nodeLabel = caseElementLabel B element,
                         caseApplied = False\<rparr>
      in (mappedNode, p\<lparr>treeMap := (treeMap p)(caseElementHash B element \<mapsto> mappedNode)\<rparr>))"

text \<open>\<open>caseElements.map(this.__buildCaseTree)\<close>, left to right.\<close>

fun buildCaseTrees ::
  "'je ElementBuilders \<Rightarrow> 'je CaseElement list \<Rightarrow> CampaignManagerProvider \<Rightarrow>
   CaseTreeNode list \<times> CampaignManagerProvider" where
  "buildCaseTrees B [] p = ([], p)"
| "buildCaseTrees B (e # es) p =
     (let r = buildCaseTree B e p; rs = buildCaseTrees B es (snd r)
      in (fst r # fst rs, snd rs))"

text \<open>What \<open>__onUpdateElementsMessage\<close> reads from its surroundings: the path of the first
  workspace folder (or the empty string), the cases of the case manager, the job manager's
  lookup and the case manager's new case hash.\<close>

record UpdateInput =
  updRootPath :: string
  updCases :: "CaseWithJobHashes list"
  updGetJob :: "JobHash \<rightharpoonup> Job"
  updNewCaseHash :: "CaseHash option"

definition caseElementsOf :: "'je ElementBuilders \<Rightarrow> UpdateInput \<Rightarrow> 'je CaseElement list" where
  "caseElementsOf B u =
     fst (buildCaseElementsAndLatestJob (jobElementOf B) (caseElementOrder B) (fileElementOrder B)
            (jobElementOrder B) (updRootPath u) (updCases u) (buildJobMap (updGetJob u) (updCases u)))"

definition onUpdateElementsMessage ::
  "'je ElementBuilders \<Rightarrow> UpdateInput \<Rightarrow> CampaignManagerProvider \<Rightarrow> CampaignManagerProvider" where
  "onUpdateElementsMessage B u p =
     (let r = buildCaseTrees B (caseElementsOf B u) p;
          caseNodes = fst r;
          p' = campaignPostMessage
                 (SetViewMessage (if caseNodes \<noteq> [] then Some caseNodes else None)) (snd r)
      in case updNewCaseHash u of
           None \<Rightarrow> p'
         | Some newCaseHash \<Rightarrow> selectCase newCaseHash p')"

text \<open>\<open>__onClearStateMessage\<close>: the view is told to show nothing; the tree map is left as it
  is.\<close>

definition onClearStateMessage :: "CampaignManagerProvider \<Rightarrow> CampaignManagerProvider" where
  "onClearStateMessage p = campaignPostMessage (SetViewMessage None) p"

text \<open>The provider over its lifetime: it starts with an empty tree map and handles update
  and clear-state messages.\<close>

datatype CampaignEvent = UpdateElements UpdateInput | ClearState

fun campaignStep ::
  "'je ElementBuilders \<Rightarrow> CampaignManagerProvider \<Rightarrow> CampaignEvent \<Rightarrow> CampaignManagerProvider" where
  "campaignStep B p (UpdateElements u) = onUpdateElementsMessage B u p"
| "campaignStep B p ClearState = onClearStateMessage p"

definition campaignRun ::
  "'je ElementBuilders \<Rightarrow> CampaignManagerProvider \<Rightarrow> CampaignEvent list \<Rightarrow> CampaignManagerProvider" where
  "campaignRun B p evs = foldl (campaignStep B) p evs"

definition newProvider :: "CampaignMessage list option \<Rightarrow> CampaignManagerProvider" where
  "newProvider view = \<lparr>campaignView = view, treeMap = Map.empty\<rparr>"

text \<open>The case hashes for which an event builds a tree node.\<close>

fun builtHashes :: "'je ElementBuilders \<Rightarrow> CampaignEvent \<Rightarrow> CaseHash set" where
  "builtHashes B (UpdateElements u) = caseElementHash B ` set (caseElementsOf B u)"
| "builtHashes B ClearState = {}"

text \<open>Builders to run the provider on concrete inputs: a job element is the job's hash,
  elements keep their order, and a case element has the hash and the codemod name of its
  case.\<close>

definition plainBuilders :: "JobHash ElementBuilders" where
  "plainBuilders =
     \<lparr>jobElementOf = (\<lambda>job root. jobHash job),
      caseElementOrder = (\<lambda>a b. 0), fileElementOrder = (\<lambda>a b. 0), jobElementOrder = (\<lambda>a b. 0),
      caseElementHash = (\<lambda>e. caseHash (elementCase e)),
      caseElementLabel = (\<lambda>e. codemodName (elementCase e))\<rparr>"

definition updateWith :: "CaseWithJobHashes list \<Rightarrow> CaseHash option \<Rightarrow> UpdateInput" where
  "updateWith cases new =
     \<lparr>updRootPath = ''/repo'', updCases = cases, updGetJob = Map.empty, updNewCaseHash = new\<rparr>"

definition caseC1 :: CaseWithJobHashes where
  "caseC1 = \<lparr>caseHash = ''c1'', codemodName = ''rename-foo'', caseCreatedAt = 0, jobHashes = []\<rparr>"

section \<open>Job store, case store and file system\<close>

text \<open>
  Modelled from the spec: \<open>JobManager.deleteJobs\<close>, the job store, the case store and the
  file service are not among the sources. The spec's stores are a collection of jobs by
  hash, the ordered job hashes of each case, and the files of the workspace by path.
  Discarding "performs no filesystem effect; it only instructs Job Store/Case Store to drop
  the given identifiers"; removing an absent hash is a no-op; a case left with no job by a
  removal is removed itself.
\<close>

record Stores =
  jobStore :: "JobHash \<rightharpoonup> Job"
  caseStore :: "CaseHash \<rightharpoonup> JobHash list"
  fileSystem :: "string \<rightharpoonup> string"

text \<open>Modelled from the spec: \<open>removeJobsFromCase\<close> of the case store. The hashes in \<open>H\<close>
  are dropped from the case; the result is \<open>None\<close> when that removes its last job.\<close>

definition removeJobsFromCase :: "JobHash set \<Rightarrow> JobHash list \<Rightarrow> JobHash list option" where
  "removeJobsFromCase H js =
     (let js' = filter (\<lambda>j. j \<notin> H) js
      in if js' = [] \<and> js \<noteq> [] then None else Some js')"

text \<open>Modelled from the spec: \<open>JobManager.deleteJobs\<close>, the spec's \<open>discard(jobHashes)\<close>. It
  drops the hashes from the job store and from every case and never throws.\<close>

definition deleteJobs :: "JobHash list \<Rightarrow> Stores jobOp" where
  "deleteJobs hs w =
     (None,
      (fst w,
       (snd w)\<lparr>jobStore := jobStore (snd w) |` (- set hs),
               caseStore := (\<lambda>c. Option.bind (caseStore (snd w) c) (removeJobsFromCase (set hs)))\<rparr>))"

text \<open>A case whose two jobs rewrite the same file; the job manager hands out each job with
  a \<open>Uri\<close> object of its own.\<close>

definition uriA :: "nat \<Rightarrow> Uri" where
  "uriA r = \<lparr>uriRef = r, uriString = ''file:///repo/a.ts'', fsPath = ''/repo/a.ts''\<rparr>"

definition rewriteJob :: "JobHash \<Rightarrow> nat \<Rightarrow> int \<Rightarrow> Job" where
  "rewriteJob h r t =
     \<lparr>jobHash = h, kind = rewriteFile, oldUri = Some (uriA r), newUri = None, createdAt = t\<rparr>"

definition twoRewritesCase :: CaseWithJobHashes where
  "twoRewritesCase =
     \<lparr>caseHash = ''c1'', codemodName = ''m'', caseCreatedAt = 0, jobHashes = [''j1'', ''j2'']\<rparr>"

definition twoRewritesJobMap :: "JobHash \<rightharpoonup> Job" where
  "twoRewritesJobMap = [''j1'' \<mapsto> rewriteJob ''j1'' 1 10, ''j2'' \<mapsto> rewriteJob ''j2'' 2 20]"

section \<open>Progress events (\<open>MainViewProvider\<close>, \<open>CodemodListPanelProvider\<close>)\<close>

text \<open>
  The \<open>showProgress\<close> message of the bus as the two subscribers read it:
  \<open>MainViewProvider\<close> forwards four fields, \<open>CodemodListPanelProvider\<close> computes a
  percentage. The message bus and the engine service that publishes on it are not among
  the sources. A provider's view is \<open>None\<close> until the webview is resolved and otherwise
  holds the messages posted so far.
\<close>

record ShowProgressMessage =
  progressCodemodHash :: "CodemodHash option"
  progressKind :: string
  totalFileNumber :: int
  processedFileNumber :: int

record ExecutionProgress =
  processedFiles :: int
  totalFiles :: int
  executionCodemodHash :: "CodemodHash option"

datatype ProgressWebviewMessage =
    SetCodemodExecutionProgress CodemodHash string int int
  | SetCodemodExecutionProgressValue int CodemodHash

definition postMessage :: "'m \<Rightarrow> 'm list option \<Rightarrow> 'm list option" where
  "postMessage m view = (case view of None \<Rightarrow> None | Some inbox \<Rightarrow> Some (inbox @ [m]))"

definition onShowProgress ::
  "ShowProgressMessage \<Rightarrow> ProgressWebviewMessage list option \<Rightarrow> ProgressWebviewMessage list option" where
  "onShowProgress message view =
     (case progressCodemodHash message of
        None \<Rightarrow> view
      | Some h \<Rightarrow>
          postMessage (SetCodemodExecutionProgress h (progressKind message)
                         (totalFileNumber message) (processedFileNumber message)) view)"

text \<open>
  \<open>!codemodHash\<close> holds for a missing hash and for the empty string. The percentage is
  \<open>Math.round((processedFiles / totalFiles) * 100)\<close> in double-precision arithmetic, left
  as the parameter \<open>roundPercent\<close>.
\<close>

definition handleCodemodExecutionProgress ::
  "(int \<Rightarrow> int \<Rightarrow> int) \<Rightarrow> ExecutionProgress \<Rightarrow> ProgressWebviewMessage list option \<Rightarrow>
   ProgressWebviewMessage list option" where
  "handleCodemodExecutionProgress roundPercent e view =
     (case executionCodemodHash e of
        None \<Rightarrow> view
      | Some h \<Rightarrow>
          if h = [] \<or> totalFiles e = 0 then view
          else
            (let progress = (if 0 < totalFiles e then roundPercent (processedFiles e) (totalFiles e) else 0)
             in postMessage (SetCodemodExecutionProgressValue progress h) view))"

text \<open>A stand-in for \<open>roundPercent\<close> on concrete inputs: the exact percentage rounded half up.
  It is not \<open>Math.round\<close> on doubles in general (at 29 of 200 the doubles give 14 and this
  gives 15); at 3 of 10, the only place it is evaluated at, both give 30.\<close>

definition halfUpPercent :: "int \<Rightarrow> int \<Rightarrow> int" where
  "halfUpPercent p t = (200 * p + t) div (2 * t)"

section \<open>Execution queue\<close>

text \<open>
  Modelled from the spec: \<open>EngineService\<close> (with \<open>shutdownEngines\<close>) and the execution queue
  are not among the sources; \<open>MainViewProvider\<close> only forwards the webview's halt message to
  \<open>shutdownEngines\<close>. The spec's queue: a request is \<open>queued\<close>, then \<open>running\<close>, then
  \<open>completed\<close>, \<open>failed\<close> or \<open>halted\<close>; at most one request runs and requests start in FIFO
  order; a completed run publishes \<open>caseCreated\<close>, a failed one an error record; progress
  ticks of the running request are republished; a halt turns the running request and every
  queued one into \<open>halted\<close>, and what the abandoned engine reports later is discarded.
  A request is identified by its position in the list of all requests ever enqueued.
\<close>

datatype RequestStatus = Queued | Running | Completed | Failed | Halted

datatype BusEvent =
    CaseCreated nat
  | ExecutionFailed nat
  | ExecutionProgressEvent nat int int
  | ExecutionHalted


record ExecutionQueue =
  requests :: "RequestStatus list"
  published :: "BusEvent list"

fun indexOf :: "RequestStatus \<Rightarrow> RequestStatus list \<Rightarrow> nat option" where
  "indexOf st [] = None"
| "indexOf st (x # xs) = (if x = st then Some 0 else map_option Suc (indexOf st xs))"

text \<open>Modelled from the spec: with no request running, the first queued request starts.\<close>

definition startNext :: "ExecutionQueue \<Rightarrow> ExecutionQueue" where
  "startNext q =
     (case indexOf Running (requests q) of
        Some _ \<Rightarrow> q
      | None \<Rightarrow>
          (case indexOf Queued (requests q) of
             None \<Rightarrow> q
           | Some i \<Rightarrow> q\<lparr>requests := (requests q)[i := Running]\<rparr>))"





section \<open>The selection tree\<close>

text \<open>
  Modelled from the spec: the reducer behind \<open>flipSelectedExplorerNode\<close> and the selector
  \<open>selectExplorerTree\<close> are not among the sources. The tree of one case has the case node,
  one file node per file element and the jobs as leaves; it is read off a case element
  built by \<open>buildCaseElementsAndLatestJob\<close>. The selection of a case is kept the way the
  persisted state keeps it, as the set of selected nodes and the set of indeterminate
  nodes. Following the spec, toggling a leaf flips it, toggling a case or file node sets
  all its leaves to the opposite of its current state (an indeterminate node selects all),
  a toggle of a node that is not in the tree does nothing, and after a change only the
  ancestors of the changed leaves are recomputed.
\<close>

datatype TriState = Unselected | Selected | Indeterminate

datatype NodeId = CaseNode | FileNode string | JobNode JobHash

record SelectionTree =
  treeCaseHash :: CaseHash
  treeFiles :: "(string \<times> JobHash list) list"

definition treeOfCaseElement :: "JobHash CaseElement \<Rightarrow> SelectionTree" where
  "treeOfCaseElement e =
     \<lparr>treeCaseHash = caseHash (elementCase e),
      treeFiles = map (\<lambda>f. (fileLabel f, fileChildren f)) (caseChildren e)\<rparr>"

record Selection =
  selectedNodes :: "NodeId set"
  indeterminateNodes :: "NodeId set"


definition allLeaves :: "SelectionTree \<Rightarrow> JobHash list" where
  "allLeaves t = concat (map snd (treeFiles t))"

fun leavesOf :: "SelectionTree \<Rightarrow> NodeId \<Rightarrow> JobHash list" where
  "leavesOf t CaseNode = allLeaves t"
| "leavesOf t (FileNode l) = concat (map snd (filter (\<lambda>f. fst f = l) (treeFiles t)))"
| "leavesOf t (JobNode j) = (if j \<in> set (allLeaves t) then [j] else [])"



text \<open>Modelled from the spec: \<open>getState\<close> reads the state kept for a node.\<close>

definition getState :: "Selection \<Rightarrow> NodeId \<Rightarrow> TriState" where
  "getState sel n =
     (if n \<in> selectedNodes sel then Selected
      else if n \<in> indeterminateNodes sel then Indeterminate
      else Unselected)"

definition leafSelected :: "Selection \<Rightarrow> JobHash \<Rightarrow> bool" where
  "leafSelected sel j = (JobNode j \<in> selectedNodes sel)"

text \<open>Modelled from the spec: the state of a node computed from the leaves below it; a node
  without leaves counts as unselected.\<close>

definition aggregate :: "Selection \<Rightarrow> JobHash list \<Rightarrow> TriState" where
  "aggregate sel js =
     (let chosen = filter (leafSelected sel) js
      in if chosen = [] then Unselected
         else if length chosen = length js then Selected
         else Indeterminate)"



text \<open>Modelled from the spec: store the state of node \<open>n\<close> computed from its leaves.\<close>

definition recompute :: "SelectionTree \<Rightarrow> NodeId \<Rightarrow> Selection \<Rightarrow> Selection" where
  "recompute t n sel =
     (let st = aggregate sel (leavesOf t n)
      in sel\<lparr>selectedNodes :=
               (if st = Selected then insert n (selectedNodes sel) else selectedNodes sel - {n}),
             indeterminateNodes :=
               (if st = Indeterminate then insert n (indeterminateNodes sel)
                else indeterminateNodes sel - {n})\<rparr>)"



text \<open>The tri-state property of the spec, for one node: selected iff all leaves below it are
  selected, unselected iff none is, indeterminate otherwise.\<close>

definition allLeavesSelected :: "SelectionTree \<Rightarrow> Selection \<Rightarrow> NodeId \<Rightarrow> bool" where
  "allLeavesSelected t sel n = list_all (leafSelected sel) (leavesOf t n)"

definition noLeafSelected :: "SelectionTree \<Rightarrow> Selection \<Rightarrow> NodeId \<Rightarrow> bool" where
  "noLeafSelected t sel n = list_all (\<lambda>j. \<not> leafSelected sel j) (leavesOf t n)"

definition triStateCorrect :: "SelectionTree \<Rightarrow> Selection \<Rightarrow> NodeId \<Rightarrow> bool" where
  "triStateCorrect t sel n \<longleftrightarrow>
     (getState sel n = Selected) = allLeavesSelected t sel n \<and>
     (getState sel n = Unselected) = noLeafSelected t sel n \<and>
     (getState sel n = Indeterminate) = (\<not> allLeavesSelected t sel n \<and> \<not> noLeafSelected t sel n)"


text \<open>The spec's example run: \<open>rename-foo\<close> yields a move of \<open>a.ts\<close> to \<open>b.ts\<close> and a rewrite of
  \<open>c.ts\<close>.\<close>

definition uriOf :: "nat \<Rightarrow> string \<Rightarrow> Uri" where
  "uriOf r p = \<lparr>uriRef = r, uriString = ''file://'' @ p, fsPath = p\<rparr>"

definition renameFooJobMap :: "JobHash \<rightharpoonup> Job" where
  "renameFooJobMap =
     [''j1'' \<mapsto> \<lparr>jobHash = ''j1'', kind = moveFile, oldUri = Some (uriOf 1 ''/repo/a.ts''),
                 newUri = Some (uriOf 2 ''/repo/b.ts''), createdAt = 1\<rparr>,
      ''j2'' \<mapsto> \<lparr>jobHash = ''j2'', kind = rewriteFile, oldUri = Some (uriOf 3 ''/repo/c.ts''),
                 newUri = None, createdAt = 2\<rparr>]"

definition caseTrees :: "CaseWithJobHashes list \<Rightarrow> (JobHash \<rightharpoonup> Job) \<Rightarrow> SelectionTree list" where
  "caseTrees cases jobMap =
     map treeOfCaseElement
       (fst (buildCaseElementsAndLatestJob (\<lambda>job root. jobHash job) (\<lambda>a b. 0) (\<lambda>a b. 0) (\<lambda>a b. 0)
              ''/repo'' cases jobMap))"

definition renameFooTree :: SelectionTree where
  "renameFooTree = \<lparr>treeCaseHash = ''c1'', treeFiles = [(''/b.ts'', [''j1'']), (''/c.ts'', [''j2''])]\<rparr>"

section \<open>Decoding the persisted selection (\<open>persistedStateCodecNew\<close>)\<close>

text \<open>
  Values as they come out of the workspace storage, and the \<open>io-ts\<close> codecs the two
  selection fields of \<open>persistedStateCodecNew\<close> are made of. \<open>caseHashCodec\<close> and
  \<open>_explorerNodeHashDigestCodec\<close> are branded string codecs that are not among the sources;
  their predicates are the parameters \<open>validCaseHash\<close> and \<open>validDigest\<close>. A codec returns
  \<open>None\<close> for a validation error; \<open>withFallback\<close> replaces an error by its fallback, and a
  missing property reads as \<open>undefined\<close>. The other fields of the state all have fallbacks
  too, so decoding an object never fails because of them; they are left out.
\<close>

datatype raw =
    RUndefined
  | RNull
  | RBool bool
  | RNum int
  | RStr string
  | RArr "raw list"
  | RObj "(string \<times> raw) list"

type_synonym 'a codec = "raw \<Rightarrow> 'a option"

definition brandedString :: "(string \<Rightarrow> bool) \<Rightarrow> string codec" where
  "brandedString valid u = (case u of RStr s \<Rightarrow> if valid s then Some s else None | _ \<Rightarrow> None)"

definition readonlyArray :: "'a codec \<Rightarrow> 'a list codec" where
  "readonlyArray item u = (case u of RArr xs \<Rightarrow> those (map item xs) | _ \<Rightarrow> None)"

definition recordCodec :: "(string \<Rightarrow> bool) \<Rightarrow> 'a codec \<Rightarrow> (string \<rightharpoonup> 'a) codec" where
  "recordCodec validKey codomain u =
     (case u of
        RObj kvs \<Rightarrow>
          if list_all (\<lambda>kv. validKey (fst kv)) kvs
          then map_option (\<lambda>vs. map_of (zip (map fst kvs) vs)) (those (map (\<lambda>kv. codomain (snd kv)) kvs))
          else None
      | _ \<Rightarrow> None)"

definition withFallback :: "'a codec \<Rightarrow> 'a \<Rightarrow> raw \<Rightarrow> 'a" where
  "withFallback codec fallback u = (case codec u of None \<Rightarrow> fallback | Some a \<Rightarrow> a)"

definition property :: "(string \<times> raw) list \<Rightarrow> string \<Rightarrow> raw" where
  "property kvs name = (case map_of kvs name of None \<Rightarrow> RUndefined | Some v \<Rightarrow> v)"

definition explorerNodesCodec ::
  "(string \<Rightarrow> bool) \<Rightarrow> (string \<Rightarrow> bool) \<Rightarrow> (CaseHash \<rightharpoonup> ExplorerNodeHashDigest list) codec" where
  "explorerNodesCodec validCaseHash validDigest =
     recordCodec validCaseHash (readonlyArray (brandedString validDigest))"

record PersistedSelection =
  persistedSelected :: "CaseHash \<rightharpoonup> ExplorerNodeHashDigest list"
  persistedIndeterminate :: "CaseHash \<rightharpoonup> ExplorerNodeHashDigest list"

definition decodePersistedSelection ::
  "(string \<Rightarrow> bool) \<Rightarrow> (string \<Rightarrow> bool) \<Rightarrow> PersistedSelection codec" where
  "decodePersistedSelection validCaseHash validDigest u =
     (case u of
        RObj kvs \<Rightarrow>
          Some \<lparr>persistedSelected =
                   withFallback (explorerNodesCodec validCaseHash validDigest) Map.empty
                     (property kvs ''selectedExplorerNodes''),
                persistedIndeterminate =
                   withFallback (explorerNodesCodec validCaseHash validDigest) Map.empty
                     (property kvs ''indeterminateExplorerNodes'')\<rparr>
      | _ \<Rightarrow> None)"

text \<open>The stored form of a record of explorer nodes (the codecs encode by identity), and the
  records all of whose keys and digests are valid.\<close>

definition encodeExplorerNodes :: "(CaseHash \<times> ExplorerNodeHashDigest list) list \<Rightarrow> raw" where
  "encodeExplorerNodes kvs = RObj (map (\<lambda>kv. (fst kv, RArr (map RStr (snd kv)))) kvs)"

definition wellFormedNodes ::
  "(string \<Rightarrow> bool) \<Rightarrow> (string \<Rightarrow> bool) \<Rightarrow> (CaseHash \<times> ExplorerNodeHashDigest list) list \<Rightarrow> bool" where
  "wellFormedNodes validCaseHash validDigest kvs =
     list_all (\<lambda>kv. validCaseHash (fst kv) \<and> list_all validDigest (snd kv)) kvs"

section \<open>Theorems\<close>

subsection \<open>Auxiliary facts\<close>

lemma dispatched_append: "dispatched (xs @ ys) = dispatched xs @ dispatched ys"
  by (induction xs rule: dispatched.induct) auto

lemma dispatched_failureMessages: "dispatched (failureMessages a) = []"
  by (simp add: failureMessages_def split: option.splits)


lemma startNext_length [simp]: "length (requests (startNext q)) = length (requests q)"
  by (simp add: startNext_def split: option.splits)

lemma startNext_published [simp]: "published (startNext q) = published q"
  by (simp add: startNext_def split: option.splits)






lemma addTargetUris_targetOf:
  "addTargetUris us job = (case targetOf job of None \<Rightarrow> us | Some u \<Rightarrow> uriSetAdd us u)"
  by (cases "kind job") (auto simp: addTargetUris_def targetOf_def split: option.splits)

lemma uriSetAdd_distinct:
  "distinct (map uriRef us) \<Longrightarrow> distinct (map uriRef (uriSetAdd us u))"
  by (auto simp: uriSetAdd_def)

lemma foldl_addTargetUris_distinct:
  "distinct (map uriRef us) \<Longrightarrow> distinct (map uriRef (foldl addTargetUris us jobs))"
proof (induction jobs arbitrary: us)
  case Nil
  then show ?case by simp
next
  case (Cons job jobs)
  have "distinct (map uriRef (addTargetUris us job))"
    using Cons.prems by (simp add: addTargetUris_targetOf uriSetAdd_distinct split: option.splits)
  then show ?case using Cons.IH by simp
qed

lemma targetUris_distinct_objects: "distinct (map uriRef (targetUris jobs))"
  unfolding targetUris_def by (rule foldl_addTargetUris_distinct) simp

lemma foldl_addTargetUris_source:
  "u \<in> set (foldl addTargetUris us jobs) \<Longrightarrow>
   u \<in> set us \<or> (\<exists>job \<in> set jobs. targetOf job = Some u)"
proof (induction jobs arbitrary: us)
  case Nil
  then show ?case by simp
next
  case (Cons job jobs)
  from Cons.IH [of "addTargetUris us job"] Cons.prems
  have "u \<in> set (addTargetUris us job) \<or> (\<exists>j \<in> set jobs. targetOf j = Some u)" by simp
  then show ?case
    by (auto simp: addTargetUris_targetOf uriSetAdd_def split: option.splits if_splits)
qed

lemma targetUris_source:
  "u \<in> set (targetUris jobs) \<Longrightarrow> \<exists>job \<in> set jobs. targetOf job = Some u"
  using foldl_addTargetUris_source [of u "[]" jobs] by (simp add: targetUris_def)

lemma targetOf_touches: "targetOf job = Some u \<Longrightarrow> jobTouches u job"
  by (auto simp: targetOf_def jobTouches_def split: if_splits)

lemma file_node_has_a_job:
  "u \<in> set (targetUris jobs) \<Longrightarrow> fileChildren (fileElementFor buildJobElement rootPath c jobs u) \<noteq> []"
proof -
  assume "u \<in> set (targetUris jobs)"
  then obtain job where "job \<in> set jobs" "jobTouches u job"
    using targetUris_source targetOf_touches by blast
  then have "filter (jobTouches u) jobs \<noteq> []" by (auto simp: filter_empty_conv)
  then show ?thesis by (simp add: fileElementFor_def)
qed

lemma foldl_addTargetUris_mono:
  "uriRef u \<in> uriRef ` set us \<Longrightarrow> uriRef u \<in> uriRef ` set (foldl addTargetUris us jobs)"
proof (induction jobs arbitrary: us)
  case Nil
  then show ?case by simp
next
  case (Cons job jobs)
  have "uriRef u \<in> uriRef ` set (addTargetUris us job)"
    using Cons.prems by (auto simp: addTargetUris_targetOf uriSetAdd_def split: option.splits)
  then show ?case using Cons.IH by simp
qed

lemma foldl_addTargetUris_complete:
  "job \<in> set jobs \<Longrightarrow> targetOf job = Some u \<Longrightarrow>
   uriRef u \<in> uriRef ` set (foldl addTargetUris us jobs)"
proof (induction jobs arbitrary: us)
  case Nil
  then show ?case by simp
next
  case (Cons j jobs)
  show ?case
  proof (cases "job = j")
    case True
    then have "uriRef u \<in> uriRef ` set (addTargetUris us j)"
      using Cons.prems(2) by (auto simp: addTargetUris_targetOf uriSetAdd_def)
    then show ?thesis using foldl_addTargetUris_mono by simp
  next
    case False
    then show ?thesis using Cons by simp
  qed
qed

lemma targetUris_complete:
  "job \<in> set jobs \<Longrightarrow> targetOf job = Some u \<Longrightarrow> uriRef u \<in> uriRef ` set (targetUris jobs)"
  unfolding targetUris_def by (rule foldl_addTargetUris_complete)

lemma file_node_children:
  "fileChildren (fileElementFor buildJobElement rootPath c jobs u)
     = map (\<lambda>job. buildJobElement job rootPath) (filter (jobTouches u) jobs)"
  by (simp add: fileElementFor_def)

lemma campaignPostMessage_treeMap [simp]: "treeMap (campaignPostMessage m p) = treeMap p"
  by (simp add: campaignPostMessage_def split: option.splits)

lemma selectCase_treeMap [simp]: "treeMap (selectCase h p) = treeMap p"
  by (simp add: selectCase_def split: option.splits)

lemma buildCaseTrees_dom:
  "dom (treeMap (snd (buildCaseTrees B es p))) = dom (treeMap p) \<union> caseElementHash B ` set es"
  by (induction es arbitrary: p) (auto simp: buildCaseTree_def Let_def)

lemma campaignStep_dom:
  "dom (treeMap (campaignStep B p ev)) = dom (treeMap p) \<union> builtHashes B ev"
  by (cases ev)
     (auto simp: onUpdateElementsMessage_def onClearStateMessage_def buildCaseTrees_dom Let_def
        split: option.splits)

lemma campaignRun_dom:
  "dom (treeMap (campaignRun B p evs)) = dom (treeMap p) \<union> (\<Union>ev \<in> set evs. builtHashes B ev)"
  unfolding campaignRun_def
  by (induction evs arbitrary: p) (auto simp: campaignStep_dom)

lemma caseElementsOf_c1:
  "caseElementsOf plainBuilders (updateWith [caseC1] new) = [\<lparr>elementCase = caseC1, caseChildren = []\<rparr>]"
  by (simp add: caseElementsOf_def plainBuilders_def updateWith_def buildCaseElementsAndLatestJob_def
      buildJobMap_def caseC1_def targetUris_def sortBy_def Let_def)

lemma caseElementsOf_none:
  "caseElementsOf plainBuilders (updateWith [] new) = []"
  by (simp add: caseElementsOf_def plainBuilders_def updateWith_def buildCaseElementsAndLatestJob_def
      buildJobMap_def sortBy_def Let_def)

lemma plainBuilders_hash [simp]: "caseElementHash plainBuilders e = caseHash (elementCase e)"
  by (simp add: plainBuilders_def)

lemma plainBuilders_label [simp]: "caseElementLabel plainBuilders e = codemodName (elementCase e)"
  by (simp add: plainBuilders_def)

lemma updateWith_new [simp]: "updNewCaseHash (updateWith cases new) = new"
  by (simp add: updateWith_def)

lemma caseC1_fields: "caseHash caseC1 = ''c1''" "codemodName caseC1 = ''rename-foo''"
  by (simp_all add: caseC1_def)

lemma aggregate_cong:
  "(\<And>j. j \<in> set js \<Longrightarrow> leafSelected s1 j = leafSelected s2 j) \<Longrightarrow> aggregate s1 js = aggregate s2 js"
proof -
  assume "\<And>j. j \<in> set js \<Longrightarrow> leafSelected s1 j = leafSelected s2 j"
  then have "filter (leafSelected s1) js = filter (leafSelected s2) js"
    by (intro filter_cong) auto
  then show ?thesis by (simp add: aggregate_def)
qed

lemma recompute_leaf:
  "n \<notin> range JobNode \<Longrightarrow> leafSelected (recompute t n sel) j = leafSelected sel j"
  by (auto simp: recompute_def leafSelected_def Let_def)



lemma recompute_aggregate:
  "n \<notin> range JobNode \<Longrightarrow> aggregate (recompute t n sel) js = aggregate sel js"
  by (rule aggregate_cong) (auto simp: recompute_leaf)













lemma leafless_node_has_no_correct_state:
  "leavesOf t n = [] \<Longrightarrow> \<not> triStateCorrect t sel n"
  by (auto simp: triStateCorrect_def allLeavesSelected_def noLeafSelected_def)

lemma renameFooTree_built:
  "caseTrees [\<lparr>caseHash = ''c1'', codemodName = ''rename-foo'', caseCreatedAt = 0,
               jobHashes = [''j1'', ''j2'']\<rparr>] renameFooJobMap = [renameFooTree]"
  by (simp add: caseTrees_def buildCaseElementsAndLatestJob_def renameFooJobMap_def Let_def
      targetUris_def addTargetUris_def uriSetAdd_def fileElementFor_def jobTouches_def sortBy_def
      uriOf_def treeOfCaseElement_def renameFooTree_def)

lemma those_map_Some: "those (map (\<lambda>x. Some (f x)) xs) = Some (map f xs)"
  by (induction xs) auto

lemma digests_roundtrip:
  "list_all validDigest ds \<Longrightarrow> readonlyArray (brandedString validDigest) (RArr (map RStr ds)) = Some ds"
  unfolding readonlyArray_def
  by (induction ds) (auto simp: brandedString_def)

lemma explorerNodes_roundtrip:
  assumes "wellFormedNodes validCaseHash validDigest kvs"
  shows "explorerNodesCodec validCaseHash validDigest (encodeExplorerNodes kvs) = Some (map_of kvs)"
proof -
  have keys: "list_all (\<lambda>kv. validCaseHash (fst kv)) (map (\<lambda>kv. (fst kv, RArr (map RStr (snd kv)))) kvs)"
    using assms by (induction kvs) (auto simp: wellFormedNodes_def)
  have vals: "map (\<lambda>kv. readonlyArray (brandedString validDigest) (snd kv))
                (map (\<lambda>kv. (fst kv, RArr (map RStr (snd kv)))) kvs)
              = map (\<lambda>kv. Some (snd kv)) kvs"
    using assms by (induction kvs) (auto simp: wellFormedNodes_def digests_roundtrip)
  have zip: "zip (map fst (map (\<lambda>kv. (fst kv, RArr (map RStr (snd kv)))) kvs)) (map snd kvs) = kvs"
    by (induction kvs) auto
  show ?thesis
    unfolding explorerNodesCodec_def recordCodec_def encodeExplorerNodes_def
    using keys by (simp add: vals those_map_Some zip del: map_map)
qed

subsection \<open>The properties\<close>




text \<open>
  C2, as the code has it. The persisted state keeps the indeterminate explorer nodes of
  each case in a field of its own, next to the selected ones: whatever is stored under
  \<open>indeterminateExplorerNodes\<close> (with valid keys and digests) is what decoding returns as the
  indeterminate nodes, whatever the rest of the persisted object holds.
\<close>

theorem indeterminate_nodes_are_persisted:
  assumes "wellFormedNodes validCaseHash validDigest ind"
    and "map_of kvs ''indeterminateExplorerNodes'' = Some (encodeExplorerNodes ind)"
  shows "map_option persistedIndeterminate
           (decodePersistedSelection validCaseHash validDigest (RObj kvs)) = Some (map_of ind)"
  using explorerNodes_roundtrip [OF assms(1)] assms(2)
  by (simp add: decodePersistedSelection_def property_def withFallback_def)

theorem indeterminate_nodes_are_persisted_witness:
  "wellFormedNodes (\<lambda>s. s \<noteq> []) (\<lambda>s. s \<noteq> []) [(''c1'', [''n1'', ''n2''])]
   \<and> map_option (\<lambda>p. persistedIndeterminate p ''c1'')
       (decodePersistedSelection (\<lambda>s. s \<noteq> []) (\<lambda>s. s \<noteq> [])
          (RObj [(''applySelectedInProgress'', RBool False),
                 (''indeterminateExplorerNodes'', encodeExplorerNodes [(''c1'', [''n1'', ''n2''])])]))
     = Some (Some [''n1'', ''n2''])"
  using indeterminate_nodes_are_persisted
    [of "\<lambda>s. s \<noteq> []" "\<lambda>s. s \<noteq> []" "[(''c1'', [''n1'', ''n2''])]"
        "[(''applySelectedInProgress'', RBool False),
          (''indeterminateExplorerNodes'', encodeExplorerNodes [(''c1'', [''n1'', ''n2''])])]"]
  by (auto simp: wellFormedNodes_def)

text \<open>
  C2 as stated fails: a persisted state in which no explorer node of case \<open>c1\<close> is selected
  and node \<open>n1\<close> is stored as indeterminate decodes to a state with \<open>n1\<close> indeterminate. The
  indeterminate state is read from storage, not recomputed from the selected leaves (from
  which it could not follow here).
\<close>

theorem indeterminate_state_is_read_from_storage:
  "map_option (\<lambda>p. (persistedSelected p ''c1'', persistedIndeterminate p ''c1''))
     (decodePersistedSelection (\<lambda>s. s \<noteq> []) (\<lambda>s. s \<noteq> [])
        (RObj [(''selectedExplorerNodes'', RObj []),
               (''indeterminateExplorerNodes'', RObj [(''c1'', RArr [RStr ''n1''])])]))
   = Some (None, Some [''n1''])"
  by (simp add: decodePersistedSelection_def property_def withFallback_def explorerNodesCodec_def
      recordCodec_def readonlyArray_def brandedString_def)

text \<open>
  C3, as the code has it. When the command is invoked with the hash of the selected case,
  the explorer tree exists and \<open>acceptJobs\<close> returns without throwing, \<open>acceptJobs\<close> is called
  once, with exactly the set of the tree's \<open>selectedJobHashes\<close>, and afterwards the actions
  that clear the selected and the indeterminate explorer nodes of that case are dispatched
  (between the two dispatches of the in-progress flag).
\<close>

theorem applySelected_accepts_selected_jobs:
  assumes "decodeCaseHash arg0 = Inr c"
    and "selectedCaseHash (codemodRunsTab (red s (SetApplySelectedInProgress True))) = Some c"
    and "selectTree (red s (SetApplySelectedInProgress True)) rootPath = Some tree"
    and "acceptJobs (set (selectedJobHashes tree)) (red s (SetApplySelectedInProgress True), x)
           = (None, (s', x'))"
  shows "acceptCalls (fst (saveStagedJobsToTheFileSystem red decodeCaseHash selectTree acceptJobs
             rootPath arg0 (s, x))) = [set (selectedJobHashes tree)]
       \<and> dispatched (fst (saveStagedJobsToTheFileSystem red decodeCaseHash selectTree acceptJobs
             rootPath arg0 (s, x)))
           = [SetApplySelectedInProgress True, ClearSelectedExplorerNodes c,
              ClearIndeterminateExplorerNodes c, SetApplySelectedInProgress False]
       \<and> snd (saveStagedJobsToTheFileSystem red decodeCaseHash selectTree acceptJobs rootPath arg0 (s, x))
           = (red (red (red s' (ClearSelectedExplorerNodes c)) (ClearIndeterminateExplorerNodes c))
                (SetApplySelectedInProgress False), x')"
  using assms
  by (simp add: saveStagedJobsToTheFileSystem_def saveStagedJobsBody_def)

theorem applySelected_accepts_selected_jobs_witness:
  "(let r = saveStagedJobsToTheFileSystem sliceReducer decodeNonEmpty
              (\<lambda>s p. Some \<lparr>selectedJobHashes = [''j1'', ''j2'', ''j1'']\<rparr>) jobOpOk ''/repo'' ''c1''
              (stateWithCase ''c1'', ())
    in acceptCalls (fst r) = [{''j1'', ''j2''}]
     \<and> selectedExplorerNodes (fst (snd r)) ''c1'' = Some []
     \<and> indeterminateExplorerNodes (fst (snd r)) ''c1'' = Some [])"
  using applySelected_accepts_selected_jobs
    [of decodeNonEmpty "''c1''" "''c1''" sliceReducer "stateWithCase ''c1''"
        "\<lambda>s p. Some \<lparr>selectedJobHashes = [''j1'', ''j2'', ''j1'']\<rparr>" "''/repo''"
        "\<lparr>selectedJobHashes = [''j1'', ''j2'', ''j1'']\<rparr>" jobOpOk "()"
        "sliceReducer (stateWithCase ''c1'') (SetApplySelectedInProgress True)" "()"]
  by (auto simp: decodeNonEmpty_def stateWithCase_def initialState_def jobOpOk_def Let_def)

text \<open>
  C3 as stated fails in two places. With the hash of the selected case but no explorer
  tree (\<open>selectExplorerTree\<close> returns \<open>null\<close>) the accepting operation is not called at all;
  and when \<open>acceptJobs\<close> throws, the selected and indeterminate explorer nodes of the case
  are not cleared.
\<close>

theorem applySelected_without_tree_or_with_error:
  "acceptCalls (fst (saveStagedJobsToTheFileSystem sliceReducer decodeNonEmpty (\<lambda>s p. None) jobOpOk
       ''/repo'' ''c1'' (stateWithCase ''c1'', ()))) = []
   \<and> dispatched (fst (saveStagedJobsToTheFileSystem sliceReducer decodeNonEmpty
       (\<lambda>s p. Some \<lparr>selectedJobHashes = [''j1'']\<rparr>) jobOpThrows
       ''/repo'' ''c1'' (stateWithCase ''c1'', ())))
       = [SetApplySelectedInProgress True, SetApplySelectedInProgress False]
   \<and> selectedExplorerNodes (fst (snd (saveStagedJobsToTheFileSystem sliceReducer decodeNonEmpty
       (\<lambda>s p. Some \<lparr>selectedJobHashes = [''j1'']\<rparr>) jobOpThrows
       ''/repo'' ''c1'' (stateWithCase ''c1'', ())))) ''c1'' = Some [''n1'', ''n2'']"
  by (simp add: saveStagedJobsToTheFileSystem_def saveStagedJobsBody_def decodeNonEmpty_def
      stateWithCase_def initialState_def jobOpOk_def jobOpThrows_def)

text \<open>
  C4 at a case whose two jobs rewrite the same file through two \<open>Uri\<close> objects: the set of
  URIs holds both objects, so the file level has two nodes for the one target URI, each
  with both jobs under it.
\<close>

theorem two_file_nodes_for_one_target_uri:
  "concat (map caseChildren
     (fst (buildCaseElementsAndLatestJob (\<lambda>job root. jobHash job) (\<lambda>a b. 0) (\<lambda>a b. 0) (\<lambda>a b. 0)
        ''/repo'' [twoRewritesCase] twoRewritesJobMap)))
   = [\<lparr>fileCaseHash = ''c1'', fileLabel = ''/a.ts'', fileChildren = [''j1'', ''j2'']\<rparr>,
      \<lparr>fileCaseHash = ''c1'', fileLabel = ''/a.ts'', fileChildren = [''j1'', ''j2'']\<rparr>]
   \<and> map uriString (targetUris [rewriteJob ''j1'' 1 10, rewriteJob ''j2'' 2 20])
      = [''file:///repo/a.ts'', ''file:///repo/a.ts'']"
  by (simp add: buildCaseElementsAndLatestJob_def twoRewritesCase_def twoRewritesJobMap_def
      rewriteJob_def uriA_def targetUris_def addTargetUris_def uriSetAdd_def fileElementFor_def
      jobTouches_def sortBy_def Let_def)


text \<open>
  C6, as the code has it. The provider's tree map only grows: \<open>__buildCaseTree\<close> is its only
  writer and no entry is ever removed. So over the provider's lifetime (any sequence of
  update and clear-state messages, from the empty map) selecting a case hash for which no
  tree node was ever built does nothing: the provider, and with it the messages posted to
  the webview, is unchanged, and the function has no failing branch. For a hash that some
  update built a node for, the select message of that node is posted, whether or not the
  case is still in the tree.
\<close>

theorem selectCase_unknown_hash_is_noop:
  "(h \<notin> (\<Union>ev \<in> set evs. builtHashes B ev) \<longrightarrow>
      selectCase h (campaignRun B (newProvider view) evs) = campaignRun B (newProvider view) evs)
   \<and> (h \<in> (\<Union>ev \<in> set evs. builtHashes B ev) \<longrightarrow>
      (\<exists>node. treeMap (campaignRun B (newProvider view) evs) h = Some node
         \<and> selectCase h (campaignRun B (newProvider view) evs)
             = campaignPostMessage (SelectCaseMessage node) (campaignRun B (newProvider view) evs)))"
proof -
  let ?p = "campaignRun B (newProvider view) evs"
  have d: "dom (treeMap ?p) = (\<Union>ev \<in> set evs. builtHashes B ev)"
    using campaignRun_dom [of B "newProvider view" evs] by (simp add: newProvider_def)
  show ?thesis
  proof (intro conjI impI)
    assume "h \<notin> (\<Union>ev \<in> set evs. builtHashes B ev)"
    then have "treeMap ?p h = None" using d by blast
    then show "selectCase h ?p = ?p" by (simp add: selectCase_def)
  next
    assume "h \<in> (\<Union>ev \<in> set evs. builtHashes B ev)"
    then obtain node where "treeMap ?p h = Some node" using d by blast
    then show "\<exists>node. treeMap ?p h = Some node
         \<and> selectCase h ?p = campaignPostMessage (SelectCaseMessage node) ?p"
      by (simp add: selectCase_def)
  qed
qed

theorem selectCase_unknown_hash_is_noop_witness:
  "''c9'' \<notin> (\<Union>ev \<in> set [UpdateElements (updateWith [caseC1] (Some ''c1''))]. builtHashes plainBuilders ev)
   \<and> treeMap (campaignRun plainBuilders (newProvider (Some []))
        [UpdateElements (updateWith [caseC1] (Some ''c1''))]) ''c1''
      = Some \<lparr>nodeId = ''c1'', nodeLabel = ''rename-foo'', caseApplied = False\<rparr>
   \<and> campaignView (selectCase ''c9'' (campaignRun plainBuilders (newProvider (Some []))
        [UpdateElements (updateWith [caseC1] (Some ''c1''))]))
      = Some [SetViewMessage (Some [\<lparr>nodeId = ''c1'', nodeLabel = ''rename-foo'', caseApplied = False\<rparr>]),
              SelectCaseMessage \<lparr>nodeId = ''c1'', nodeLabel = ''rename-foo'', caseApplied = False\<rparr>]"
  using selectCase_unknown_hash_is_noop
    [where h = "''c9''" and evs = "[UpdateElements (updateWith [caseC1] (Some ''c1''))]"
       and B = plainBuilders and view = "Some []"]
  by (simp add: caseElementsOf_c1 campaignRun_def onUpdateElementsMessage_def buildCaseTree_def
      campaignPostMessage_def selectCase_def newProvider_def caseC1_fields Let_def)

text \<open>
  C6 as stated fails for a case that was in the tree and is gone. After an update with
  case \<open>c1\<close>, an update without it and a clear-state message, the view has been told to show
  nothing, yet selecting \<open>c1\<close> still finds the node in the tree map and posts the select
  message.
\<close>

theorem selectCase_posts_for_removed_case:
  "campaignView (campaignRun plainBuilders (newProvider (Some []))
      [UpdateElements (updateWith [caseC1] None), UpdateElements (updateWith [] None), ClearState])
     = Some [SetViewMessage (Some [\<lparr>nodeId = ''c1'', nodeLabel = ''rename-foo'', caseApplied = False\<rparr>]),
             SetViewMessage None, SetViewMessage None]
   \<and> campaignView (selectCase ''c1'' (campaignRun plainBuilders (newProvider (Some []))
      [UpdateElements (updateWith [caseC1] None), UpdateElements (updateWith [] None), ClearState]))
     = Some [SetViewMessage (Some [\<lparr>nodeId = ''c1'', nodeLabel = ''rename-foo'', caseApplied = False\<rparr>]),
             SetViewMessage None, SetViewMessage None,
             SelectCaseMessage \<lparr>nodeId = ''c1'', nodeLabel = ''rename-foo'', caseApplied = False\<rparr>]"
  by (simp add: caseElementsOf_c1 caseElementsOf_none campaignRun_def onUpdateElementsMessage_def
      onClearStateMessage_def buildCaseTree_def
      campaignPostMessage_def selectCase_def newProvider_def caseC1_fields Let_def)


text \<open>
  C7, as the code has it. A \<open>showProgress\<close> message with a codemod hash is handed by
  \<open>MainViewProvider\<close> to \<open>__postMessage\<close> as it arrives, with its four fields;
  \<open>CodemodListPanelProvider\<close> does so for an event with a non-empty codemod hash and
  \<open>totalFiles\<close> other than zero, with the rounded percentage when \<open>totalFiles\<close> is positive
  and with 0 when it is negative. \<open>__postMessage\<close> delivers to the webview only when the
  provider's view has been resolved: then the message is appended to the view's messages;
  before that, nothing is posted.
\<close>

theorem progress_with_codemod_hash_is_posted:
  "(progressCodemodHash message = Some h \<longrightarrow>
      onShowProgress message (Some inbox)
        = Some (inbox @ [SetCodemodExecutionProgress h (progressKind message)
                           (totalFileNumber message) (processedFileNumber message)])
      \<and> onShowProgress message None = None)
   \<and> (executionCodemodHash e = Some h \<and> h \<noteq> [] \<and> 0 < totalFiles e \<longrightarrow>
      handleCodemodExecutionProgress roundPercent e (Some inbox)
        = Some (inbox @ [SetCodemodExecutionProgressValue
                           (roundPercent (processedFiles e) (totalFiles e)) h])
      \<and> handleCodemodExecutionProgress roundPercent e None = None)
   \<and> (executionCodemodHash e = Some h \<and> h \<noteq> [] \<and> totalFiles e < 0 \<longrightarrow>
      handleCodemodExecutionProgress roundPercent e (Some inbox)
        = Some (inbox @ [SetCodemodExecutionProgressValue 0 h])
      \<and> handleCodemodExecutionProgress roundPercent e None = None)"
  by (simp add: onShowProgress_def handleCodemodExecutionProgress_def postMessage_def)

theorem progress_with_codemod_hash_is_posted_witness:
  "onShowProgress \<lparr>progressCodemodHash = Some ''h1'', progressKind = ''finite'', totalFileNumber = 10,
       processedFileNumber = 3\<rparr> (Some []) = Some [SetCodemodExecutionProgress ''h1'' ''finite'' 10 3]
   \<and> handleCodemodExecutionProgress halfUpPercent
       \<lparr>processedFiles = 3, totalFiles = 10, executionCodemodHash = Some ''h1''\<rparr> (Some [])
       = Some [SetCodemodExecutionProgressValue 30 ''h1'']
   \<and> handleCodemodExecutionProgress halfUpPercent
       \<lparr>processedFiles = 3, totalFiles = 10, executionCodemodHash = Some ''h1''\<rparr> None = None"
  using progress_with_codemod_hash_is_posted
    [where message = "\<lparr>progressCodemodHash = Some ''h1'', progressKind = ''finite'',
                        totalFileNumber = 10, processedFileNumber = 3\<rparr>"
       and h = "''h1''" and inbox = "[]"
       and e = "\<lparr>processedFiles = 3, totalFiles = 10, executionCodemodHash = Some ''h1''\<rparr>"
       and roundPercent = halfUpPercent]
  by (simp add: halfUpPercent_def)

text \<open>
  C7 as stated fails: a progress event without a codemod hash (the command of a run
  started by \<open>intuita.executeAsCodemod\<close> has \<open>codemodHash: null\<close>) is posted by neither
  subscriber, \<open>CodemodListPanelProvider\<close> also drops an event with \<open>totalFiles = 0\<close>, and an
  event that arrives before the provider's view is resolved is posted nowhere.
\<close>

theorem progress_event_dropped:
  "onShowProgress \<lparr>progressCodemodHash = None, progressKind = ''finite'', totalFileNumber = 10,
       processedFileNumber = 3\<rparr> (Some []) = Some []
   \<and> handleCodemodExecutionProgress halfUpPercent
       \<lparr>processedFiles = 3, totalFiles = 10, executionCodemodHash = None\<rparr> (Some []) = Some []
   \<and> handleCodemodExecutionProgress halfUpPercent
       \<lparr>processedFiles = 0, totalFiles = 0, executionCodemodHash = Some ''h1''\<rparr> (Some []) = Some []
   \<and> onShowProgress \<lparr>progressCodemodHash = Some ''h1'', progressKind = ''finite'',
       totalFileNumber = 10, processedFileNumber = 3\<rparr> None = None
   \<and> handleCodemodExecutionProgress halfUpPercent
       \<lparr>processedFiles = 3, totalFiles = 10, executionCodemodHash = Some ''h1''\<rparr> None = None"
  by (simp add: onShowProgress_def handleCodemodExecutionProgress_def postMessage_def)



text \<open>
  C9. When the argument decodes to a case hash other than the selected one, the apply
  command only raises and lowers the in-progress flag and the discard command does
  nothing: no job operation is called, the world outside the store is untouched and no
  action on the selection is dispatched. Under the slice reducer the flag actions leave
  the selected case and the selected and indeterminate explorer nodes as they are.
\<close>

theorem mismatched_case_hash_is_ignored:
  assumes "decodeCaseHash arg0 = Inr c"
  shows "(Some c \<noteq> selectedCaseHash (codemodRunsTab (red s (SetApplySelectedInProgress True))) \<longrightarrow>
            saveStagedJobsToTheFileSystem red decodeCaseHash selectTree acceptJobs rootPath arg0 (s, x)
              = ([Dispatched (SetApplySelectedInProgress True),
                  Dispatched (SetApplySelectedInProgress False)],
                 (red (red s (SetApplySelectedInProgress True)) (SetApplySelectedInProgress False), x)))
       \<and> (Some c \<noteq> selectedCaseHash (codemodRunsTab s) \<longrightarrow>
            discardJobs red decodeCaseHash selectTree deleteJobsOp rootPath arg0 (s, x) = ([], (s, x)))
       \<and> selectedExplorerNodes (sliceReducer (sliceReducer s (SetApplySelectedInProgress True))
            (SetApplySelectedInProgress False)) = selectedExplorerNodes s
       \<and> indeterminateExplorerNodes (sliceReducer (sliceReducer s (SetApplySelectedInProgress True))
            (SetApplySelectedInProgress False)) = indeterminateExplorerNodes s
       \<and> selectedCaseHash (codemodRunsTab (sliceReducer s (SetApplySelectedInProgress True)))
            = selectedCaseHash (codemodRunsTab s)"
  using assms
  by (simp add: saveStagedJobsToTheFileSystem_def saveStagedJobsBody_def discardJobs_def
      discardJobsBody_def)

theorem mismatched_case_hash_is_ignored_witness:
  "decodeNonEmpty ''c2'' = Inr ''c2''
   \<and> saveStagedJobsToTheFileSystem sliceReducer decodeNonEmpty
        (\<lambda>s p. Some \<lparr>selectedJobHashes = [''j1'']\<rparr>) jobOpOk ''/repo'' ''c2'' (stateWithCase ''c1'', ())
       = ([Dispatched (SetApplySelectedInProgress True), Dispatched (SetApplySelectedInProgress False)],
          (stateWithCase ''c1'', ()))
   \<and> discardJobs sliceReducer decodeNonEmpty (\<lambda>s p. Some \<lparr>selectedJobHashes = [''j1'']\<rparr>)
        jobOpOk ''/repo'' ''c2'' (stateWithCase ''c1'', ()) = ([], (stateWithCase ''c1'', ()))"
  using mismatched_case_hash_is_ignored
    [of decodeNonEmpty "''c2''" "''c2''" sliceReducer "stateWithCase ''c1''"
        "\<lambda>s p. Some \<lparr>selectedJobHashes = [''j1'']\<rparr>" jobOpOk "''/repo''" "()" jobOpOk]
  by (simp add: decodeNonEmpty_def stateWithCase_def initialState_def)

text \<open>
  C10. In \<open>MainViewProvider.updateExecutionPath\<close>, when the check of the new path fails
  (the check is only reached with a workspace root) and an execution path was persisted
  for the codemod, the handler dispatches exactly one action, \<open>setExecutionPath\<close> with the
  old path, and the store is the reducer's result for it; the value of
  \<open>revertToPrevExecutionIfInvalid\<close> makes no difference, since both branches dispatch the
  same action.
\<close>

theorem updateExecutionPath_restores_old_path:
  assumes "rootUri \<noteq> None"
    and "\<not> stat (newPath a)"
    and "executionPaths (codemodDiscoveryView s) (codemodHash a) = Some old"
  shows "fst (updateExecutionPath red stat rootUri a s) = red s (SetExecutionPath (codemodHash a) old)
       \<and> dispatched (snd (updateExecutionPath red stat rootUri a s)) = [SetExecutionPath (codemodHash a) old]
       \<and> updateExecutionPath red stat rootUri (a\<lparr>revertToPrevExecutionIfInvalid := flag\<rparr>) s
           = updateExecutionPath red stat rootUri a s"
  using assms
  by (auto simp: updateExecutionPath_def dispatched_append failureMessages_def
      split: option.splits)

theorem updateExecutionPath_restores_old_path_witness:
  "(let a = \<lparr>newPath = ''/gone'', codemodHash = ''h1'', errorMessage = Some ''bad path'',
             warningMessage = None, revertToPrevExecutionIfInvalid = False,
             fromVSCodeCommand = None\<rparr>;
        s = sliceReducer initialState (SetExecutionPath ''h1'' ''/repo/src'')
    in Some ''/repo'' \<noteq> (None :: string option)
     \<and> \<not> (\<lambda>p. p = ''/repo/src'') (newPath a)
     \<and> executionPaths (codemodDiscoveryView s) (codemodHash a) = Some ''/repo/src''
     \<and> dispatched (snd (updateExecutionPath sliceReducer (\<lambda>p. p = ''/repo/src'') (Some ''/repo'') a s))
         = [SetExecutionPath ''h1'' ''/repo/src'']
     \<and> executionPaths (codemodDiscoveryView
           (fst (updateExecutionPath sliceReducer (\<lambda>p. p = ''/repo/src'') (Some ''/repo'') a s))) ''h1''
         = Some ''/repo/src'')"
  using updateExecutionPath_restores_old_path
    [of "Some ''/repo''" "\<lambda>p. p = ''/repo/src''"
        "\<lparr>newPath = ''/gone'', codemodHash = ''h1'', errorMessage = Some ''bad path'',
          warningMessage = None, revertToPrevExecutionIfInvalid = False,
          fromVSCodeCommand = None\<rparr>"
        "sliceReducer initialState (SetExecutionPath ''h1'' ''/repo/src'')"
        "''/repo/src''" sliceReducer]
  by (simp add: initialState_def)

end
